theory Spec2Isabelle
  imports
    Complex_Main
    "HOL-Library.Char_ord"
    "HOL-Library.List_Lexorder"
    "HOL-Library.Product_Lexorder"
    "HOL-Library.Multiset"
    "HOL-Library.Sublist"
begin

section \<open>The roster schema (students/models.py)\<close>

text \<open>
  The three Django models become records, one field per column. A foreign key is stored as
  the primary key of the row it points to (Django's \<open>section_id\<close> / \<open>student_id\<close> column).
  The field \<open>term\<close> of Section is written \<open>term'\<close>, and the two foreign keys are named
  after their model, because \<open>term\<close> and \<open>section\<close> are reserved words of the theory
  language and two records cannot share a field name.

  Strings are lists of characters; a character stands for a code point below 256. SQLite
  (the configured engine) compares text bytewise, which on these strings is the
  lexicographic order on characters.
\<close>

record Section =
  section_id :: int
  code :: string
  name :: string
  term' :: string

record Student =
  student_id :: int
  first_name :: string
  last_name :: string
  nickname :: string
  email :: string
  student_section :: int

record Enrollment =
  enroll_id :: int
  enrollment_student :: int
  enrollment_section :: int
  enrolled_on :: string
  is_active :: bool

text \<open>
  The database state: each table is the list of its rows, in the order in which a scan of the
  table yields them.
\<close>

record database =
  sections :: "Section list"
  students :: "Student list"
  enrollments :: "Enrollment list"

section \<open>The query operators the views use\<close>

text \<open>
  \<open>Section.objects.annotate(n=Count("rel"))\<close> is evaluated by the database as

  \<^verbatim>\<open>SELECT ..., COUNT(child.pk) FROM section LEFT OUTER JOIN child ON (section.pk = child.fk)
     GROUP BY <the selected section columns> ORDER BY ...\<close>

  The operators below are the relational pieces of that statement: the left outer join (a
  parent row without children is kept once, with a NULL child), grouping by a key,
  \<open>COUNT(col)\<close> (which skips NULL) with the optional \<open>filter=Q(...)\<close>, and \<open>order_by\<close>.
  The database leaves the order of rows with equal sort keys open; here they keep the
  order of the scan (a stable sort).
\<close>

definition left_outer_join ::
  "'a list \<Rightarrow> 'b list \<Rightarrow> ('a \<Rightarrow> 'b \<Rightarrow> bool) \<Rightarrow> ('a \<times> 'b option) list" where
  "left_outer_join ls rs on =
     concat (map (\<lambda>l. case filter (on l) rs of
                         [] \<Rightarrow> [(l, None)]
                       | m # ms \<Rightarrow> map (\<lambda>r. (l, Some r)) (m # ms)) ls)"

definition inner_join :: "'a list \<Rightarrow> 'b list \<Rightarrow> ('a \<Rightarrow> 'b \<Rightarrow> bool) \<Rightarrow> ('a \<times> 'b) list" where
  "inner_join ls rs on = concat (map (\<lambda>l. map (\<lambda>r. (l, r)) (filter (on l) rs)) ls)"

definition group_by :: "('r \<Rightarrow> 'k) \<Rightarrow> 'r list \<Rightarrow> ('k \<times> 'r list) list" where
  "group_by key rows = map (\<lambda>k. (k, filter (\<lambda>r. key r = k) rows)) (remdups (map key rows))"

definition Count :: "('b \<Rightarrow> bool) \<Rightarrow> ('a \<times> 'b option) list \<Rightarrow> nat" where
  "Count flt rows =
     length (filter (\<lambda>r. case snd r of None \<Rightarrow> False | Some b \<Rightarrow> flt b) rows)"

definition order_by :: "('r \<Rightarrow> 'k::linorder) \<Rightarrow> 'r list \<Rightarrow> 'r list" where
  "order_by key rows = sort_key key rows"

text \<open>The two reverse relations of Section, as join conditions.\<close>

definition section_related_name :: "Section \<Rightarrow> Student \<Rightarrow> bool" where
  "section_related_name sec s \<longleftrightarrow> student_section s = section_id sec"

definition enrollments_related_name :: "Section \<Rightarrow> Enrollment \<Rightarrow> bool" where
  "enrollments_related_name sec e \<longleftrightarrow> enrollment_section e = section_id sec"

section \<open>Values, responses and request parameters\<close>

text \<open>
  What \<open>json.loads\<close> returns and \<open>JsonResponse\<close> serialises: the Python value tree. A
  dictionary is the list of its items in insertion order. A float is only passed through by
  the views, so it is represented by the number it denotes.
\<close>

datatype json =
    JNull
  | JBool bool
  | JInt int
  | JFloat real
  | JStr string
  | JArr "json list"
  | JObj "(string \<times> json) list"

record 'b HttpResponse =
  status :: nat
  content_type :: string
  headers :: "(string \<times> string) list"
  content :: 'b

definition JsonResponse :: "json \<Rightarrow> nat \<Rightarrow> json HttpResponse" where
  "JsonResponse data st =
     \<lparr>status = st, content_type = ''application/json'', headers = [], content = data\<rparr>"

text \<open>
  \<open>request.GET.get("q")\<close> is \<open>None\<close> when the parameter is absent. \<open>x or ""\<close> turns \<open>None\<close>
  (and the empty string) into the empty string; \<open>str.strip()\<close> removes the white space at
  both ends, where white space is what \<open>str.isspace\<close> accepts among the code points below
  256.
\<close>

definition or_empty :: "string option \<Rightarrow> string" where
  "or_empty x = (case x of None \<Rightarrow> [] | Some v \<Rightarrow> v)"

definition isspace :: "char \<Rightarrow> bool" where
  "isspace c \<longleftrightarrow> (of_char c :: nat) \<in> {9, 10, 11, 12, 13, 28, 29, 30, 31, 32, 133, 160}"

definition strip :: "string \<Rightarrow> string" where
  "strip s = rev (dropWhile isspace (rev (dropWhile isspace s)))"

text \<open>
  \<open>field__icontains=q\<close> is \<open>field LIKE '%q%'\<close> with the wildcards of \<open>q\<close> escaped; on SQLite
  \<open>LIKE\<close> ignores the case of the ASCII letters only.
\<close>

definition ascii_lower :: "char \<Rightarrow> char" where
  "ascii_lower c =
     (let n = (of_char c :: nat) in if 65 \<le> n \<and> n \<le> 90 then char_of (n + 32) else c)"

definition icontains :: "string \<Rightarrow> string \<Rightarrow> bool" where
  "icontains field q \<longleftrightarrow> sublist (map ascii_lower q) (map ascii_lower field)"

section \<open>Per-section aggregation endpoints (students/views.py)\<close>

text \<open>
  \<open>api_students_per_section\<close>: annotate on the model (grouping by the section row), then
  \<open>values("code", "n_students")\<close>, then \<open>order_by("code")\<close>; the response carries the two
  columns as parallel arrays.
\<close>

definition api_students_per_section :: "database \<Rightarrow> json HttpResponse" where
  "api_students_per_section db =
     (let rows = order_by fst
            (map (\<lambda>(sec, grp). (code sec, Count (\<lambda>_. True) grp))
               (group_by fst
                  (left_outer_join (sections db) (students db) section_related_name)));
          labels = map (\<lambda>r. JStr (fst r)) rows;
          counts = map (\<lambda>r. JInt (int (snd r))) rows
      in JsonResponse (JObj [(''labels'', JArr labels), (''counts'', JArr counts)]) 200)"

text \<open>
  \<open>api_enrollments_per_section\<close>: both counts are taken over the same join with the
  enrollments; \<open>n_active\<close> counts only the joined rows with \<open>is_active\<close>.
\<close>

definition api_enrollments_per_section :: "database \<Rightarrow> json HttpResponse" where
  "api_enrollments_per_section db =
     (let rows = order_by fst
            (map (\<lambda>(sec, grp). (code sec, Count (\<lambda>_. True) grp, Count is_active grp))
               (group_by fst
                  (left_outer_join (sections db) (enrollments db) enrollments_related_name)))
      in JsonResponse
           (JObj [(''results'',
              JArr (map (\<lambda>(c, a, b). JObj [(''code'', JStr c), (''n_all'', JInt (int a)),
                                             (''n_active'', JInt (int b))]) rows))]) 200)"

section \<open>Student roster endpoints (students/views.py)\<close>

text \<open>
  \<open>values(..., "section__code")\<close> joins each student with the section its foreign key
  points to (an inner join, the key being mandatory); \<open>order_by("last_name",
  "first_name")\<close> sorts the joined rows.
\<close>

definition student_section_join :: "Student list \<Rightarrow> Section list \<Rightarrow> (Student \<times> Section) list" where
  "student_section_join ss secs =
     inner_join ss secs (\<lambda>s sec. section_id sec = student_section s)"

definition by_last_first :: "Student \<times> Section \<Rightarrow> string \<times> string" where
  "by_last_first r = (last_name (fst r), first_name (fst r))"

definition student_values :: "Student \<times> Section \<Rightarrow> json" where
  "student_values r =
     JObj [(''student_id'', JInt (student_id (fst r))),
           (''first_name'', JStr (first_name (fst r))),
           (''last_name'', JStr (last_name (fst r))),
           (''nickname'', JStr (nickname (fst r))),
           (''email'', JStr (email (fst r))),
           (''section__code'', JStr (code (snd r)))]"

definition name_filter :: "string \<Rightarrow> Student \<Rightarrow> bool" where
  "name_filter q s \<longleftrightarrow>
     icontains (first_name s) q \<or> icontains (last_name s) q \<or> icontains (nickname s) q"

text \<open>The first definition of \<open>api_students\<close> (the one introduced as "Main api").\<close>

definition api_students_first :: "database \<Rightarrow> string option \<Rightarrow> json HttpResponse" where
  "api_students_first db GET_q =
     (let q = strip (or_empty GET_q);
          qs = students db;
          qs = (if q \<noteq> [] then filter (name_filter q) (students db) else qs);
          data = map student_values (order_by by_last_first (student_section_join qs (sections db)))
      in JsonResponse (JObj [(''count'', JInt (int (length data))), (''results'', JArr data)]) 200)"

text \<open>
  The second definition of \<open>api_students\<close>, which is the one the module exports and the URL
  configuration routes to.
\<close>

definition api_students :: "database \<Rightarrow> string option \<Rightarrow> json HttpResponse" where
  "api_students db GET_q =
     (let q = strip (or_empty GET_q);
          qs = students db;
          qs = (if q \<noteq> [] then filter (name_filter q) (students db) else qs);
          data = map student_values (order_by by_last_first (student_section_join qs (sections db)))
      in JsonResponse (JObj [(''count'', JInt (int (length data))), (''results'', JArr data)]) 200)"


section \<open>Exports (students/views.py)\<close>

text \<open>
  The clock is outside the embedding: the formatted readings of \<open>datetime.now()\<close> are
  parameters. The CSV body is the sequence of rows handed to \<open>writer.writerow\<close>; the JSON
  body is the value handed to \<open>JsonResponse\<close>.
\<close>

definition student_values_list :: "Student \<times> Section \<Rightarrow> json list" where
  "student_values_list r =
     [JInt (student_id (fst r)), JStr (first_name (fst r)), JStr (last_name (fst r)),
      JStr (email (fst r)), JStr (code (snd r))]"

definition student_export_values :: "Student \<times> Section \<Rightarrow> json" where
  "student_export_values r =
     JObj [(''student_id'', JInt (student_id (fst r))),
           (''first_name'', JStr (first_name (fst r))),
           (''last_name'', JStr (last_name (fst r))),
           (''email'', JStr (email (fst r))),
           (''section__code'', JStr (code (snd r)))]"

definition export_students_csv :: "database \<Rightarrow> string \<Rightarrow> json list list HttpResponse" where
  "export_students_csv db timestamp =
     (let filename = ''students_'' @ timestamp @ ''.csv'';
          header = [JStr ''student_id'', JStr ''first_name'', JStr ''last_name'', JStr ''email'',
                    JStr ''section_code''];
          rows = map student_values_list
                   (order_by by_last_first (student_section_join (students db) (sections db)))
      in \<lparr>status = 200, content_type = ''text/csv'',
          headers = [(''Content-Disposition'', ''attachment; filename='' @ [CHR 0x22] @ filename @ [CHR 0x22])],
          content = header # rows\<rparr>)"

definition export_students_json :: "database \<Rightarrow> string \<Rightarrow> string \<Rightarrow> json HttpResponse" where
  "export_students_json db generated_at timestamp =
     (let data = map student_export_values
                   (order_by by_last_first (student_section_join (students db) (sections db)));
          json_content = JObj [(''generated_at'', JStr generated_at),
                               (''record_count'', JInt (int (length data))),
                               (''students'', JArr data)];
          filename = ''students_'' @ timestamp @ ''.json''
      in (JsonResponse json_content 200)
           \<lparr>headers := [(''Content-Disposition'', ''attachment; filename='' @ [CHR 0x22] @ filename @ [CHR 0x22])]\<rparr>)"

section \<open>The HTML list views (students/views.py)\<close>

text \<open>
  The context of \<open>StudentListView\<close>. A queryset of model instances without an explicit
  \<open>order_by\<close> has the ordering of \<open>Student.Meta\<close> (last name, then first name). The
  aggregations that call \<open>values(...)\<close> before \<open>annotate(...)\<close> group by the named columns.
\<close>

record StudentListView_context =
  student_rows_for_looping :: "Student list"
  ctx_q :: "string option"
  search_results :: "Student list option"
  total_students :: nat
  total_enrollments :: nat
  students_per_section :: "(string \<times> string \<times> nat) list"
  enrollments_per_section :: "(string \<times> nat \<times> nat) list"
  students_per_term :: "(string \<times> nat) list"

definition Student_Meta_ordering :: "Student \<Rightarrow> string \<times> string" where
  "Student_Meta_ordering s = (last_name s, first_name s)"

definition StudentListView_get_context_data ::
  "database \<Rightarrow> string option \<Rightarrow> StudentListView_context" where
  "StudentListView_get_context_data db GET_q =
     (let q = GET_q;
          search_qs =
            (case q of
               None \<Rightarrow> None
             | Some v \<Rightarrow>
                 if v \<noteq> []
                 then Some (order_by Student_Meta_ordering
                              (filter (\<lambda>s. icontains (first_name s) v) (students db)))
                 else None)
      in \<lparr>student_rows_for_looping = order_by Student_Meta_ordering (students db),
          ctx_q = q,
          search_results = search_qs,
          total_students = length (students db),
          total_enrollments = length (enrollments db),
          students_per_section =
            order_by fst
              (map (\<lambda>((c, n), grp). (c, n, Count (\<lambda>_. True) grp))
                 (group_by (\<lambda>r. (code (fst r), name (fst r)))
                    (left_outer_join (sections db) (students db) section_related_name))),
          enrollments_per_section =
            order_by fst
              (map (\<lambda>(c, grp). (c, Count (\<lambda>_. True) grp, Count is_active grp))
                 (group_by (\<lambda>r. code (fst r))
                    (left_outer_join (sections db) (enrollments db) enrollments_related_name))),
          students_per_term =
            order_by fst
              (map (\<lambda>(t, grp). (t, Count (\<lambda>_. True) grp))
                 (group_by (\<lambda>r. term' (fst r))
                    (left_outer_join (sections db) (students db) section_related_name)))\<rparr>)"

text \<open>The context of \<open>SectionListView\<close>; the list itself has the ordering of \<open>Section.Meta\<close>.\<close>

record SectionListView_context =
  section_rows_for_looping :: "Section list"
  sec_students_per_section :: "(string \<times> string \<times> nat) list"
  sec_students_per_term :: "(string \<times> nat) list"
  sec_enrollments_per_section :: "(string \<times> nat \<times> nat) list"

definition SectionListView_get_context_data :: "database \<Rightarrow> SectionListView_context" where
  "SectionListView_get_context_data db =
     \<lparr>section_rows_for_looping = order_by code (sections db),
      sec_students_per_section =
        order_by fst
          (map (\<lambda>(sec, grp). (code sec, name sec, Count (\<lambda>_. True) grp))
             (group_by fst
                (left_outer_join (sections db) (students db) section_related_name))),
      sec_students_per_term =
        order_by fst
          (map (\<lambda>(t, grp). (t, Count (\<lambda>_. True) grp))
             (group_by (\<lambda>r. term' (fst r))
                (left_outer_join (sections db) (students db) section_related_name))),
      sec_enrollments_per_section =
        order_by fst
          (map (\<lambda>(sec, grp). (code sec, Count (\<lambda>_. True) grp, Count is_active grp))
             (group_by fst
                (left_outer_join (sections db) (enrollments db) enrollments_related_name)))\<rparr>"

section \<open>The weather endpoint (students/views.py)\<close>

text \<open>
  What the calls into the \<open>requests\<close> library can do is the input of the view:
  \<open>requests.get\<close> either raises a \<open>RequestException\<close> (connection error, timeout, too many
  redirects; the string is \<open>str(e)\<close>) or returns a response. Of a response the view uses
  the status code, through \<open>raise_for_status()\<close>, which raises \<open>HTTPError\<close> (a
  \<open>RequestException\<close>) exactly for the codes 400 to 599, and the body, through \<open>json()\<close>,
  which raises the library's \<open>JSONDecodeError\<close> (a \<open>RequestException\<close> too, since release
  2.27 of the library) when the body is not JSON. The messages of these two exceptions are
  part of the input. A parsed object is the list of its items, the first entry of a key
  being the one the dictionary holds.
\<close>

record Response =
  status_code :: nat
  http_error_msg :: string
  json_body :: "string + json"

datatype requests_get = Raises string | Returns Response

datatype uncaught = AttributeError

definition WeatherNow_get :: "requests_get \<Rightarrow> uncaught + json HttpResponse" where
  "WeatherNow_get fetched =
     (case fetched of
        Raises e \<Rightarrow> Inr (JsonResponse (JObj [(''ok'', JBool False), (''error'', JStr e)]) 502)
      | Returns output_raw_all \<Rightarrow>
          if 400 \<le> status_code output_raw_all \<and> status_code output_raw_all < 600
          then Inr (JsonResponse (JObj [(''ok'', JBool False),
                                        (''error'', JStr (http_error_msg output_raw_all))]) 502)
          else (case json_body output_raw_all of
                  Inl e \<Rightarrow>
                    Inr (JsonResponse (JObj [(''ok'', JBool False), (''error'', JStr e)]) 502)
                | Inr output_polished_all \<Rightarrow>
                    (case output_polished_all of
                       JObj items \<Rightarrow>
                         (let output_polished_cw_only =
                                (case map_of items ''current_weather'' of
                                   None \<Rightarrow> JObj []
                                 | Some w \<Rightarrow> w)
                          in Inr (JsonResponse (JObj [(''ok'', JBool True),
                                                      (''weather'', output_polished_cw_only)]) 200))
                     | _ \<Rightarrow> Inl AttributeError)))"

section \<open>Writes: what the database enforces (students/models.py, migrations/0001_initial.py)\<close>

text \<open>
  A write returns its outcome together with the state after it. The database raises
  \<open>IntegrityError\<close> for a violated key, the ORM raises \<open>ProtectedError\<close> for a protected
  foreign key, and the SQLite driver raises \<open>OverflowError\<close> for an integer outside the
  signed 64-bit range.
\<close>

datatype db_error = IntegrityError | ProtectedError | OverflowError









text \<open>
  Deleting follows the \<open>on_delete\<close> of the foreign keys that point to the deleted row:
  \<open>PROTECT\<close> refuses the deletion while such a row exists, \<open>CASCADE\<close> deletes those rows as
  well.
\<close>

datatype on_delete = PROTECT | CASCADE

definition Student_section_on_delete :: on_delete where
  "Student_section_on_delete = PROTECT"

definition Enrollment_student_on_delete :: on_delete where
  "Enrollment_student_on_delete = CASCADE"

definition Enrollment_section_on_delete :: on_delete where
  "Enrollment_section_on_delete = PROTECT"

definition delete_Student :: "int \<Rightarrow> database \<Rightarrow> (db_error + unit) \<times> database" where
  "delete_Student pk db =
     (let es = filter (\<lambda>e. enrollment_student e = pk) (enrollments db)
      in if Enrollment_student_on_delete = PROTECT \<and> es \<noteq> []
         then (Inl ProtectedError, db)
         else (Inr (),
               db\<lparr>students := filter (\<lambda>s. student_id s \<noteq> pk) (students db),
                  enrollments := filter (\<lambda>e. enrollment_student e \<noteq> pk) (enrollments db)\<rparr>))"

definition delete_Section :: "int \<Rightarrow> database \<Rightarrow> (db_error + unit) \<times> database" where
  "delete_Section pk db =
     (let ss = filter (\<lambda>s. student_section s = pk) (students db);
          es = filter (\<lambda>e. enrollment_section e = pk) (enrollments db);
          es_of_ss = filter (\<lambda>e. enrollment_student e \<in> set (map student_id ss)) (enrollments db)
      in if (Student_section_on_delete = PROTECT \<and> ss \<noteq> []) \<or>
            (Enrollment_section_on_delete = PROTECT \<and> es \<noteq> []) \<or>
            (Enrollment_student_on_delete = PROTECT \<and> es_of_ss \<noteq> [])
         then (Inl ProtectedError, db)
         else (Inr (),
               db\<lparr>sections := filter (\<lambda>sec. section_id sec \<noteq> pk) (sections db),
                  students := filter (\<lambda>s. student_section s \<noteq> pk) (students db),
                  enrollments :=
                    filter (\<lambda>e. enrollment_section e \<noteq> pk \<and>
                                 enrollment_student e \<notin> set (map student_id ss))
                      (enrollments db)\<rparr>))"

section \<open>Notions the statements use\<close>

text \<open>
  The number of students of a term: the students of every section of that term, summed over
  the sections.
\<close>

definition students_in_term :: "database \<Rightarrow> string \<Rightarrow> nat" where
  "students_in_term db t =
     sum_list (map (\<lambda>sec. length [s \<leftarrow> students db. student_section s = section_id sec])
                 [sec \<leftarrow> sections db. term' sec = t])"





section \<open>Example states\<close>

text \<open>
  Section \<open>CS101-A\<close> has two students; three enrollments point to it, two of them active.
  Section \<open>CS102-B\<close> has one student and no enrollment.
\<close>

definition scenario_db :: database where
  "scenario_db =
     \<lparr>sections =
        [\<lparr>section_id = 2, code = ''CS102-B'', name = ''Data Structures'', term' = ''Fall 2025''\<rparr>,
         \<lparr>section_id = 1, code = ''CS101-A'', name = ''Intro to CS - A'', term' = ''Fall 2025''\<rparr>],
      students =
        [\<lparr>student_id = 1, first_name = ''Ada'', last_name = ''Lovelace'', nickname = [],
          email = ''ada@example.com'', student_section = 1\<rparr>,
         \<lparr>student_id = 2, first_name = ''Alan'', last_name = ''Turing'', nickname = ''Al'',
          email = ''alan@example.com'', student_section = 1\<rparr>,
         \<lparr>student_id = 3, first_name = ''Grace'', last_name = ''Hopper'', nickname = [],
          email = ''grace@example.com'', student_section = 2\<rparr>],
      enrollments =
        [\<lparr>enroll_id = 1, enrollment_student = 1, enrollment_section = 1,
          enrolled_on = ''2025-09-01'', is_active = True\<rparr>,
         \<lparr>enroll_id = 2, enrollment_student = 3, enrollment_section = 1,
          enrolled_on = ''2025-09-01'', is_active = False\<rparr>,
         \<lparr>enroll_id = 3, enrollment_student = 2, enrollment_section = 1,
          enrolled_on = ''2025-09-02'', is_active = True\<rparr>]\<rparr>"

text \<open>Section \<open>CS103-C\<close> exists, and neither a student nor an enrollment points to it.\<close>

definition vacant_section :: Section where
  "vacant_section =
     \<lparr>section_id = 3, code = ''CS103-C'', name = ''Algorithms'', term' = []\<rparr>"

definition vacant_db :: database where
  "vacant_db =
     \<lparr>sections =
        [\<lparr>section_id = 1, code = ''CS101-A'', name = ''Intro to CS - A'', term' = ''Fall 2025''\<rparr>,
         vacant_section],
      students =
        [\<lparr>student_id = 1, first_name = ''Ada'', last_name = ''Lovelace'', nickname = [],
          email = ''ada@example.com'', student_section = 1\<rparr>],
      enrollments =
        [\<lparr>enroll_id = 1, enrollment_student = 1, enrollment_section = 1,
          enrolled_on = ''2025-09-01'', is_active = True\<rparr>]\<rparr>"






text \<open>Outcomes of the weather fetch.\<close>

definition timed_out :: requests_get where
  "timed_out = Raises ''Read timed out. (read timeout=5)''"

definition not_found :: requests_get where
  "not_found =
     Returns \<lparr>status_code = 404, http_error_msg = ''404 Client Error: Not Found'',
              json_body = Inl ''Expecting value: line 1 column 1 (char 0)''\<rparr>"

definition forecast :: requests_get where
  "forecast =
     Returns \<lparr>status_code = 200, http_error_msg = [],
              json_body = Inr (JObj [(''latitude'', JFloat 40.1164),
                                     (''current_weather'',
                                      JObj [(''temperature'', JFloat 22),
                                            (''windspeed'', JFloat 8.4),
                                            (''weathercode'', JInt 0)])])\<rparr>"

definition multiple_choices :: requests_get where
  "multiple_choices =
     Returns \<lparr>status_code = 300, http_error_msg = [],
              json_body = Inr (JObj [(''current_weather'', JObj [(''temperature'', JFloat 22)])])\<rparr>"

definition list_body :: requests_get where
  "list_body = Returns \<lparr>status_code = 200, http_error_msg = [], json_body = Inr (JArr [])\<rparr>"

section \<open>Facts about the query operators\<close>

lemma left_outer_join_Nil [simp]: "left_outer_join [] rs on = []"
  by (simp add: left_outer_join_def)

lemma left_outer_join_Cons:
  "left_outer_join (l # ls) rs on =
     (case filter (on l) rs of [] \<Rightarrow> [(l, None)] | m # ms \<Rightarrow> map (\<lambda>r. (l, Some r)) (m # ms))
     @ left_outer_join ls rs on"
  by (simp add: left_outer_join_def)

lemma fst_left_outer_join: "fst ` set (left_outer_join ls rs on) = set ls"
  by (induction ls) (auto simp: left_outer_join_Cons image_Un split: list.splits)

lemma left_outer_join_SomeD:
  "(l, Some r) \<in> set (left_outer_join ls rs on) \<Longrightarrow> on l r \<and> r \<in> set rs \<and> l \<in> set ls"
proof (induction ls)
  case Nil
  then show ?case by simp
next
  case (Cons a ls)
  have "set (filter (on a) rs) = {x \<in> set rs. on a x}" by simp
  with Cons show ?case
    by (cases "filter (on a) rs") (auto simp: left_outer_join_Cons)
qed

lemma remdups_replicate_append:
  "a \<notin> set xs \<Longrightarrow> remdups (replicate (Suc n) a @ xs) = a # remdups xs"
  by (induction n) auto

lemma remdups_left_outer_join:
  "distinct ls \<Longrightarrow> remdups (map fst (left_outer_join ls rs on)) = ls"
proof (induction ls)
  case Nil then show ?case by simp
next
  case (Cons a ls)
  have notin: "a \<notin> set (map fst (left_outer_join ls rs on))"
    using Cons.prems by (simp add: fst_left_outer_join)
  show ?case
  proof (cases "filter (on a) rs")
    case Nil
    with Cons notin show ?thesis by (simp add: left_outer_join_Cons)
  next
    case (Cons m ms)
    have "map fst (map (\<lambda>r. (a, Some r)) (m # ms)) = replicate (Suc (length ms)) a"
      by (simp add: map_replicate_const comp_def)
    with Cons Cons.prems Cons.IH remdups_replicate_append [OF notin, of "length ms"] show ?thesis
      by (simp add: left_outer_join_Cons)
  qed
qed

lemma Count_Nil [simp]: "Count flt [] = 0"
  by (simp add: Count_def)

lemma Count_chunk:
  "Count flt (case F of [] \<Rightarrow> [(a, None)] | m # ms \<Rightarrow> map (\<lambda>r. (a, Some r)) (m # ms))
     = length (filter flt F)"
  by (cases F) (simp_all add: Count_def filter_map comp_def)

lemma filter_fst_chunk:
  "filter (\<lambda>r. fst r = l)
     (case F of [] \<Rightarrow> [(a, None)] | m # ms \<Rightarrow> map (\<lambda>r. (a, Some r)) (m # ms))
     = (if a = l
        then (case F of [] \<Rightarrow> [(a, None)] | m # ms \<Rightarrow> map (\<lambda>r. (a, Some r)) (m # ms))
        else [])"
  by (cases F) (auto simp: filter_map comp_def)

lemma filter_fst_left_outer_join_notin:
  "l \<notin> set ls \<Longrightarrow> filter (\<lambda>r. fst r = l) (left_outer_join ls rs on) = []"
  using fst_left_outer_join [of ls rs on] by (auto simp: filter_empty_conv)

text \<open>
  When the parent rows are pairwise different, the group of a parent holds exactly its own
  joined rows, so \<open>COUNT\<close> over the group is the number of matching children.
\<close>

lemma Count_left_outer_join:
  "distinct ls \<Longrightarrow> l \<in> set ls \<Longrightarrow>
   Count flt (filter (\<lambda>r. fst r = l) (left_outer_join ls rs on))
     = length (filter (\<lambda>r. on l r \<and> flt r) rs)"
proof (induction ls)
  case Nil then show ?case by simp
next
  case (Cons a ls)
  show ?case
  proof (cases "a = l")
    case True
    with Cons.prems have "l \<notin> set ls" by simp
    then show ?thesis using True
      by (simp add: left_outer_join_Cons filter_fst_chunk filter_fst_left_outer_join_notin
          Count_chunk conj_commute)
  next
    case False
    with Cons show ?thesis
      by (simp add: left_outer_join_Cons filter_fst_chunk)
  qed
qed

lemma group_by_left_outer_join:
  "distinct ls \<Longrightarrow>
   map (\<lambda>(l, grp). f l (Count flt grp)) (group_by fst (left_outer_join ls rs on))
     = map (\<lambda>l. f l (length (filter (\<lambda>r. on l r \<and> flt r) rs))) ls"
  by (simp add: group_by_def remdups_left_outer_join comp_def Count_left_outer_join)

lemma Count_left_outer_join_zero:
  assumes "\<forall>r\<in>set rs. \<not> on l r"
  shows "Count flt (filter (\<lambda>r. fst r = l) (left_outer_join ls rs on)) = 0"
proof -
  have "\<not> (case snd x of None \<Rightarrow> False | Some b \<Rightarrow> flt b)"
    if "x \<in> set (left_outer_join ls rs on)" "fst x = l" for x
  proof (cases x)
    case (Pair l' o')
    with that assms left_outer_join_SomeD [of l _ ls rs on] show ?thesis
      by (cases o') auto
  qed
  then show ?thesis
    by (auto simp: Count_def filter_empty_conv)
qed

lemma group_by_member:
  "k \<in> set (map key rows) \<Longrightarrow>
   (k, filter (\<lambda>r. key r = k) rows) \<in> set (group_by key rows)"
  by (auto simp: group_by_def)

lemma insort_key_map:
  "insort_key k (f x) (map f xs) = map f (insort_key (\<lambda>y. k (f y)) x xs)"
  by (induction xs) simp_all

lemma sort_key_map: "sort_key k (map f xs) = map f (sort_key (\<lambda>y. k (f y)) xs)"
  by (induction xs) (simp_all add: insort_key_map)
lemma Count_append [simp]: "Count flt (xs @ ys) = Count flt xs + Count flt ys"
  by (simp add: Count_def)

lemma filter_key_chunk:
  "filter (\<lambda>r. key (fst r) = k)
     (case F of [] \<Rightarrow> [(a, None)] | m # ms \<Rightarrow> map (\<lambda>r. (a, Some r)) (m # ms))
     = (if key a = k
        then (case F of [] \<Rightarrow> [(a, None)] | m # ms \<Rightarrow> map (\<lambda>r. (a, Some r)) (m # ms))
        else [])"
  by (cases F) (auto simp: filter_map comp_def)

lemma Count_group_left_outer_join:
  "Count flt (filter (\<lambda>r. key (fst r) = k) (left_outer_join ls rs on))
     = sum_list (map (\<lambda>l. length (filter (\<lambda>r. on l r \<and> flt r) rs)) (filter (\<lambda>l. key l = k) ls))"
  by (induction ls)
     (simp_all add: left_outer_join_Cons filter_key_chunk Count_chunk conj_commute)

lemma keys_left_outer_join:
  "set (map (\<lambda>r. key (fst r)) (left_outer_join ls rs on)) = key ` set ls"
  using fst_left_outer_join [of ls rs on] by (auto simp: image_iff) force+

lemma per_term_rows:
  fixes db
  defines "R \<equiv> order_by fst
              (map (\<lambda>(t, grp). (t, Count (\<lambda>_. True) grp))
                 (group_by (\<lambda>r. term' (fst r))
                    (left_outer_join (sections db) (students db) section_related_name)))"
  shows "sorted (map fst R) \<and> distinct (map fst R) \<and>
         set (map fst R) = term' ` set (sections db) \<and>
         map snd R = map (students_in_term db) (map fst R)"
proof -
  let ?j = "left_outer_join (sections db) (students db) section_related_name"
  let ?G = "map (\<lambda>(t, grp). (t, Count (\<lambda>_. True) grp)) (group_by (\<lambda>r. term' (fst r)) ?j)"
  have fstG: "map fst ?G = remdups (map (\<lambda>r. term' (fst r)) ?j)"
    by (simp add: group_by_def comp_def)
  have sndG: "snd x = students_in_term db (fst x)" if "x \<in> set ?G" for x
    using that
    by (auto simp: group_by_def Count_group_left_outer_join students_in_term_def
        section_related_name_def)
  have 1: "sorted (map fst R)" by (simp add: R_def order_by_def)
  have dG: "distinct (map fst ?G)" by (simp only: fstG distinct_remdups)
  have mG: "mset (map fst R) = mset (map fst ?G)"
    unfolding R_def order_by_def by (simp only: mset_map mset_sort)
  have 2: "distinct (map fst R)"
    by (rule iffD2 [OF mset_eq_imp_distinct_iff [OF mG] dG])
  have 3: "set (map fst R) = term' ` set (sections db)"
  proof -
    have "set (map fst R) = set (map fst ?G)"
      unfolding R_def order_by_def by (simp only: set_map set_sort)
    also have "\<dots> = set (map (\<lambda>r. term' (fst r)) ?j)"
      by (simp only: fstG set_remdups)
    also have "\<dots> = term' ` set (sections db)"
      by (rule keys_left_outer_join)
    finally show ?thesis .
  qed
  have "\<forall>x\<in>set R. snd x = students_in_term db (fst x)"
    using sndG by (simp add: R_def order_by_def)
  then have 4: "map snd R = map (students_in_term db) (map fst R)"
    by simp
  from 1 2 3 4 show ?thesis by blast
qed



lemma inner_join_Nil [simp]: "inner_join [] rs on = []"
  by (simp add: inner_join_def)

lemma inner_join_Cons:
  "inner_join (l # ls) rs on = map (\<lambda>r. (l, r)) (filter (on l) rs) @ inner_join ls rs on"
  by (simp add: inner_join_def)

lemma filter_unique_key:
  "distinct (map f xs) \<Longrightarrow> k \<in> f ` set xs \<Longrightarrow>
   \<exists>x. filter (\<lambda>y. f y = k) xs = [x] \<and> x \<in> set xs \<and> f x = k"
proof (induction xs)
  case Nil then show ?case by simp
next
  case (Cons a xs)
  show ?case
  proof (cases "f a = k")
    case True
    with Cons.prems(1) have "k \<notin> f ` set xs" by simp
    then have "filter (\<lambda>y. f y = k) xs = []"
      by (auto simp: filter_empty_conv)
    with True show ?thesis by simp
  next
    case False
    with Cons show ?thesis by auto
  qed
qed

lemma student_section_join_rows:
  assumes "distinct (map section_id secs)"
      and "student_section ` set ss \<subseteq> section_id ` set secs"
  shows "map fst (student_section_join ss secs) = ss \<and>
         (\<forall>r\<in>set (student_section_join ss secs).
            snd r \<in> set secs \<and> section_id (snd r) = student_section (fst r))"
  using assms(2)
proof (induction ss)
  case Nil
  then show ?case by (simp add: student_section_join_def)
next
  case (Cons s ss)
  from Cons.prems have "student_section s \<in> section_id ` set secs" by simp
  from filter_unique_key [OF assms(1) this]
  obtain sec where "filter (\<lambda>y. section_id y = student_section s) secs = [sec]"
    "sec \<in> set secs" "section_id sec = student_section s" by blast
  moreover from Cons have "map fst (student_section_join ss secs) = ss \<and>
         (\<forall>r\<in>set (student_section_join ss secs).
            snd r \<in> set secs \<and> section_id (snd r) = student_section (fst r))" by simp
  ultimately show ?case
    by (simp add: student_section_join_def inner_join_Cons)
qed

lemma roster_query:
  assumes "distinct (map section_id secs)"
      and "student_section ` set ss \<subseteq> section_id ` set secs"
  shows "map fst (order_by by_last_first (student_section_join ss secs))
           = sort_key (\<lambda>s. (last_name s, first_name s)) ss \<and>
         (\<forall>r\<in>set (order_by by_last_first (student_section_join ss secs)).
            snd r \<in> set secs \<and> section_id (snd r) = student_section (fst r))"
proof -
  note j = student_section_join_rows [OF assms]
  have "map fst (sort_key (\<lambda>r. (last_name (fst r), first_name (fst r))) (student_section_join ss secs))
          = sort_key (\<lambda>s. (last_name s, first_name s)) (map fst (student_section_join ss secs))"
    by (simp add: sort_key_map)
  with j show ?thesis
    by (simp add: order_by_def by_last_first_def [abs_def])
qed

section \<open>Per-section aggregation\<close>

text \<open>
  C1. In every state whose sections have pairwise different primary keys, the per-section
  endpoints list the sections in ascending order of their code, and report for each
  section the number of students whose section is that section (\<open>counts\<close>), the number of
  enrollments whose section is that section (\<open>n_all\<close>) and the number of those that are
  active (\<open>n_active\<close>).
\<close>

theorem per_section_aggregation:
  assumes "distinct (map section_id (sections db))"
  shows "(let S = sort_key code (sections db);
              n_students_of = (\<lambda>sec. length [s \<leftarrow> students db. student_section s = section_id sec]);
              n_all_of = (\<lambda>sec. length [e \<leftarrow> enrollments db. enrollment_section e = section_id sec]);
              n_active_of = (\<lambda>sec. length [e \<leftarrow> enrollments db.
                                              enrollment_section e = section_id sec \<and> is_active e])
          in api_students_per_section db =
               JsonResponse
                 (JObj [(''labels'', JArr (map (\<lambda>sec. JStr (code sec)) S)),
                        (''counts'', JArr (map (\<lambda>sec. JInt (int (n_students_of sec))) S))]) 200 \<and>
             api_enrollments_per_section db =
               JsonResponse
                 (JObj [(''results'',
                    JArr (map (\<lambda>sec. JObj [(''code'', JStr (code sec)),
                                             (''n_all'', JInt (int (n_all_of sec))),
                                             (''n_active'', JInt (int (n_active_of sec)))]) S))]) 200 \<and>
             sorted (map code S) \<and> mset S = mset (sections db))"
proof -
  from assms have d: "distinct (sections db)" by (simp add: distinct_map)
  have a: "map (\<lambda>(sec, grp). (code sec, Count (\<lambda>_. True) grp))
             (group_by fst (left_outer_join (sections db) (students db) section_related_name))
        = map (\<lambda>sec. (code sec, length [s \<leftarrow> students db. student_section s = section_id sec]))
            (sections db)"
    by (simp add: group_by_def remdups_left_outer_join [OF d] comp_def
        Count_left_outer_join [OF d] section_related_name_def)
  have b: "map (\<lambda>(sec, grp). (code sec, Count (\<lambda>_. True) grp, Count is_active grp))
             (group_by fst (left_outer_join (sections db) (enrollments db) enrollments_related_name))
        = map (\<lambda>sec. (code sec,
                   length [e \<leftarrow> enrollments db. enrollment_section e = section_id sec],
                   length [e \<leftarrow> enrollments db.
                             enrollment_section e = section_id sec \<and> is_active e]))
            (sections db)"
    by (simp add: group_by_def remdups_left_outer_join [OF d] comp_def
        Count_left_outer_join [OF d] enrollments_related_name_def)
  show ?thesis
    unfolding Let_def api_students_per_section_def api_enrollments_per_section_def order_by_def a b
    by (simp add: sort_key_map comp_def)
qed

theorem per_section_aggregation_witness:
  "distinct (map section_id (sections scenario_db)) \<and>
   api_students_per_section scenario_db =
     JsonResponse (JObj [(''labels'', JArr [JStr ''CS101-A'', JStr ''CS102-B'']),
                         (''counts'', JArr [JInt 2, JInt 1])]) 200 \<and>
   api_enrollments_per_section scenario_db =
     JsonResponse (JObj [(''results'',
       JArr [JObj [(''code'', JStr ''CS101-A''), (''n_all'', JInt 3), (''n_active'', JInt 2)],
             JObj [(''code'', JStr ''CS102-B''), (''n_all'', JInt 0), (''n_active'', JInt 0)]])]) 200"
proof -
  have d: "distinct (map section_id (sections scenario_db))"
    by (simp add: scenario_db_def)
  have s: "sort_key code (sections scenario_db) = rev (sections scenario_db)"
    by (simp add: scenario_db_def)
  show ?thesis
    using d per_section_aggregation [OF d] unfolding Let_def s
    by (simp add: scenario_db_def)
qed

text \<open>
  C2. Every section is listed by both per-section endpoints. If no student points to it,
  its entry in \<open>counts\<close> is 0; if no enrollment points to it, its row has \<open>n_all = 0\<close> and
  \<open>n_active = 0\<close>. (The join is a left outer join: the section is kept with a NULL child,
  which \<open>COUNT\<close> skips.)
\<close>

theorem empty_section_still_listed:
  assumes "sec \<in> set (sections db)"
  shows "(\<exists>labels counts.
            content (api_students_per_section db) =
              JObj [(''labels'', JArr labels), (''counts'', JArr counts)] \<and>
            length labels = length counts \<and>
            JStr (code sec) \<in> set labels \<and>
            ((\<forall>s\<in>set (students db). student_section s \<noteq> section_id sec) \<longrightarrow>
               (JStr (code sec), JInt 0) \<in> set (zip labels counts))) \<and>
         (\<exists>results.
            content (api_enrollments_per_section db) = JObj [(''results'', JArr results)] \<and>
            (\<exists>a b. JObj [(''code'', JStr (code sec)), (''n_all'', JInt a), (''n_active'', JInt b)]
                      \<in> set results) \<and>
            ((\<forall>e\<in>set (enrollments db). enrollment_section e \<noteq> section_id sec) \<longrightarrow>
               JObj [(''code'', JStr (code sec)), (''n_all'', JInt 0), (''n_active'', JInt 0)]
                 \<in> set results))"
proof -
  let ?js = "left_outer_join (sections db) (students db) section_related_name"
  let ?je = "left_outer_join (sections db) (enrollments db) enrollments_related_name"
  let ?rs = "order_by fst (map (\<lambda>(sec, grp). (code sec, Count (\<lambda>_. True) grp)) (group_by fst ?js))"
  let ?re = "order_by fst (map (\<lambda>(sec, grp). (code sec, Count (\<lambda>_. True) grp, Count is_active grp))
                (group_by fst ?je))"
  let ?row = "\<lambda>(c, a, b). JObj [(''code'', JStr c), (''n_all'', JInt (int a)),
                                 (''n_active'', JInt (int b))]"
  have ks: "sec \<in> set (map fst ?js)" and ke: "sec \<in> set (map fst ?je)"
    using assms by (simp_all add: fst_left_outer_join)
  note gs = group_by_member [OF ks] and ge = group_by_member [OF ke]
  have ms: "(code sec, Count (\<lambda>_. True) (filter (\<lambda>r. fst r = sec) ?js)) \<in> set ?rs"
    unfolding order_by_def set_sort set_map using gs by (rule rev_image_eqI) simp
  have me: "(code sec, Count (\<lambda>_. True) (filter (\<lambda>r. fst r = sec) ?je),
               Count is_active (filter (\<lambda>r. fst r = sec) ?je)) \<in> set ?re"
    unfolding order_by_def set_sort set_map using ge by (rule rev_image_eqI) simp
  have zs: "zip (map (\<lambda>r. JStr (fst r)) ?rs) (map (\<lambda>r. JInt (int (snd r))) ?rs)
              = map (\<lambda>r. (JStr (fst r), JInt (int (snd r)))) ?rs"
    by (simp add: zip_map_map zip_same_conv_map)
  have 1: "JStr (code sec) \<in> set (map (\<lambda>r. JStr (fst r)) ?rs)"
    using ms by (force simp: set_map)
  have 2: "(JStr (code sec), JInt 0) \<in> set (zip (map (\<lambda>r. JStr (fst r)) ?rs)
                                                  (map (\<lambda>r. JInt (int (snd r))) ?rs))"
    if "\<forall>s\<in>set (students db). student_section s \<noteq> section_id sec"
  proof -
    from that have "\<forall>s\<in>set (students db). \<not> section_related_name sec s"
      by (simp add: section_related_name_def)
    then have "Count (\<lambda>_. True) (filter (\<lambda>r. fst r = sec) ?js) = 0"
      by (rule Count_left_outer_join_zero)
    with ms have "(code sec, 0) \<in> set ?rs" by simp
    then show ?thesis unfolding zs set_map by (rule rev_image_eqI) simp
  qed
  have 3: "\<exists>a b. JObj [(''code'', JStr (code sec)), (''n_all'', JInt a), (''n_active'', JInt b)]
             \<in> set (map ?row ?re)"
  proof -
    from me have "?row (code sec, Count (\<lambda>_. True) (filter (\<lambda>r. fst r = sec) ?je),
               Count is_active (filter (\<lambda>r. fst r = sec) ?je)) \<in> ?row ` set ?re"
      by (rule imageI)
    then show ?thesis unfolding set_map by simp blast
  qed
  have 4: "JObj [(''code'', JStr (code sec)), (''n_all'', JInt 0), (''n_active'', JInt 0)]
             \<in> set (map ?row ?re)"
    if "\<forall>e\<in>set (enrollments db). enrollment_section e \<noteq> section_id sec"
  proof -
    from that have "\<forall>e\<in>set (enrollments db). \<not> enrollments_related_name sec e"
      by (simp add: enrollments_related_name_def)
    then have "\<And>flt. Count flt (filter (\<lambda>r. fst r = sec) ?je) = 0"
      by (rule Count_left_outer_join_zero)
    with me have "(code sec, 0, 0) \<in> set ?re" by simp
    then show ?thesis unfolding set_map by (rule rev_image_eqI) simp
  qed
  have A: "content (api_students_per_section db) =
             JObj [(''labels'', JArr (map (\<lambda>r. JStr (fst r)) ?rs)),
                   (''counts'', JArr (map (\<lambda>r. JInt (int (snd r))) ?rs))]"
    by (simp add: api_students_per_section_def Let_def JsonResponse_def)
  have B: "content (api_enrollments_per_section db) = JObj [(''results'', JArr (map ?row ?re))]"
    by (simp add: api_enrollments_per_section_def Let_def JsonResponse_def)
  from A 1 2 have "\<exists>labels counts.
            content (api_students_per_section db) =
              JObj [(''labels'', JArr labels), (''counts'', JArr counts)] \<and>
            length labels = length counts \<and>
            JStr (code sec) \<in> set labels \<and>
            ((\<forall>s\<in>set (students db). student_section s \<noteq> section_id sec) \<longrightarrow>
               (JStr (code sec), JInt 0) \<in> set (zip labels counts))"
    by (intro exI [of _ "map (\<lambda>r. JStr (fst r)) ?rs"]
              exI [of _ "map (\<lambda>r. JInt (int (snd r))) ?rs"]) simp
  moreover from B 3 4 have "\<exists>results.
            content (api_enrollments_per_section db) = JObj [(''results'', JArr results)] \<and>
            (\<exists>a b. JObj [(''code'', JStr (code sec)), (''n_all'', JInt a), (''n_active'', JInt b)]
                      \<in> set results) \<and>
            ((\<forall>e\<in>set (enrollments db). enrollment_section e \<noteq> section_id sec) \<longrightarrow>
               JObj [(''code'', JStr (code sec)), (''n_all'', JInt 0), (''n_active'', JInt 0)]
                 \<in> set results)"
    by (intro exI [of _ "map ?row ?re"]) simp
  ultimately show ?thesis by (rule conjI)
qed

theorem empty_section_still_listed_witness:
  "vacant_section \<in> set (sections vacant_db) \<and>
   [s \<leftarrow> students vacant_db. student_section s = section_id vacant_section] = [] \<and>
   [e \<leftarrow> enrollments vacant_db. enrollment_section e = section_id vacant_section] = [] \<and>
   (\<exists>labels counts.
      content (api_students_per_section vacant_db) =
        JObj [(''labels'', JArr labels), (''counts'', JArr counts)] \<and>
      (JStr ''CS103-C'', JInt 0) \<in> set (zip labels counts)) \<and>
   (\<exists>results.
      content (api_enrollments_per_section vacant_db) = JObj [(''results'', JArr results)] \<and>
      JObj [(''code'', JStr ''CS103-C''), (''n_all'', JInt 0), (''n_active'', JInt 0)]
        \<in> set results)"
proof -
  have h: "vacant_section \<in> set (sections vacant_db)"
    by (simp add: vacant_db_def)
  have s: "\<forall>s\<in>set (students vacant_db). student_section s \<noteq> section_id vacant_section"
    by (simp add: vacant_db_def vacant_section_def)
  have e: "\<forall>e\<in>set (enrollments vacant_db). enrollment_section e \<noteq> section_id vacant_section"
    by (simp add: vacant_db_def vacant_section_def)
  have c: "code vacant_section = ''CS103-C''"
    by (simp add: vacant_section_def)
  have s': "[s \<leftarrow> students vacant_db. student_section s = section_id vacant_section] = []"
    and e': "[e \<leftarrow> enrollments vacant_db. enrollment_section e = section_id vacant_section] = []"
    by (simp_all add: vacant_db_def vacant_section_def)
  from empty_section_still_listed [OF h] s e show ?thesis
    unfolding c using h s' e' by blast
qed

section \<open>Per-term aggregation\<close>

text \<open>
  C8. The per-term aggregation of both list views has one row for every term label that
  occurs among the sections (the sections without a term share the row of the empty label),
  the rows are in ascending order of the label, and the count of a row is the number of
  students of all sections of that term.
\<close>

theorem students_per_term_buckets:
  "(let R = students_per_term (StudentListView_get_context_data db q) in
      sec_students_per_term (SectionListView_get_context_data db) = R \<and>
      sorted (map fst R) \<and> distinct (map fst R) \<and>
      set (map fst R) = term' ` set (sections db) \<and>
      map snd R = map (students_in_term db) (map fst R))"
  using per_term_rows [of db]
  by (simp add: StudentListView_get_context_data_def SectionListView_get_context_data_def Let_def)

section \<open>Exports\<close>

text \<open>
  C3. In a state where the section keys are pairwise different and every student points to
  a section, the CSV export and the JSON export hold one row for each student, in the same
  order, which is the order of last name, then first name: each data row of the CSV file is
  the tuple (student id, first name, last name, email, code of the student's section), the
  \<open>students\<close> array of the JSON file holds the same five values under their column names,
  and \<open>record_count\<close> is the number of students.
\<close>

theorem exports_agree:
  assumes "distinct (map section_id (sections db))"
      and "student_section ` set (students db) \<subseteq> section_id ` set (sections db)"
  shows "\<exists>rows.
           content (export_students_csv db ts_csv) =
             [JStr ''student_id'', JStr ''first_name'', JStr ''last_name'', JStr ''email'',
              JStr ''section_code''] #
             map (\<lambda>r. [JInt (student_id (fst r)), JStr (first_name (fst r)),
                        JStr (last_name (fst r)), JStr (email (fst r)), JStr (code (snd r))]) rows \<and>
           content (export_students_json db generated_at ts_json) =
             JObj [(''generated_at'', JStr generated_at),
                   (''record_count'', JInt (int (length (students db)))),
                   (''students'',
                    JArr (map (\<lambda>r. JObj [(''student_id'', JInt (student_id (fst r))),
                                           (''first_name'', JStr (first_name (fst r))),
                                           (''last_name'', JStr (last_name (fst r))),
                                           (''email'', JStr (email (fst r))),
                                           (''section__code'', JStr (code (snd r)))]) rows))] \<and>
           map fst rows = sort_key (\<lambda>s. (last_name s, first_name s)) (students db) \<and>
           (\<forall>r\<in>set rows. snd r \<in> set (sections db) \<and>
                          section_id (snd r) = student_section (fst r)) \<and>
           sorted (map (\<lambda>r. (last_name (fst r), first_name (fst r))) rows)"
proof -
  let ?rows = "order_by by_last_first (student_section_join (students db) (sections db))"
  note q = roster_query [OF assms]
  from q have r: "map fst ?rows = sort_key (\<lambda>s. (last_name s, first_name s)) (students db)"
    by (rule conjunct1)
  from q have k: "\<forall>r\<in>set ?rows. snd r \<in> set (sections db) \<and>
                     section_id (snd r) = student_section (fst r)"
    by (rule conjunct2)
  have "length ?rows = length (map fst ?rows)" by simp
  also have "\<dots> = length (students db)" unfolding r by simp
  finally have n: "length ?rows = length (students db)" .
  have "map (\<lambda>r. (last_name (fst r), first_name (fst r))) ?rows =
          map (\<lambda>s. (last_name s, first_name s)) (map fst ?rows)"
    by (simp add: comp_def)
  also have "\<dots> = map (\<lambda>s. (last_name s, first_name s))
                     (sort_key (\<lambda>s. (last_name s, first_name s)) (students db))"
    unfolding r ..
  finally have s: "sorted (map (\<lambda>r. (last_name (fst r), first_name (fst r))) ?rows)"
    by simp
  have a: "content (export_students_csv db ts_csv) =
             [JStr ''student_id'', JStr ''first_name'', JStr ''last_name'', JStr ''email'',
              JStr ''section_code''] #
             map (\<lambda>r. [JInt (student_id (fst r)), JStr (first_name (fst r)),
                        JStr (last_name (fst r)), JStr (email (fst r)), JStr (code (snd r))]) ?rows"
    by (simp add: export_students_csv_def Let_def student_values_list_def [abs_def])
  have b: "content (export_students_json db generated_at ts_json) =
             JObj [(''generated_at'', JStr generated_at),
                   (''record_count'', JInt (int (length (students db)))),
                   (''students'',
                    JArr (map (\<lambda>r. JObj [(''student_id'', JInt (student_id (fst r))),
                                           (''first_name'', JStr (first_name (fst r))),
                                           (''last_name'', JStr (last_name (fst r))),
                                           (''email'', JStr (email (fst r))),
                                           (''section__code'', JStr (code (snd r)))]) ?rows))]"
    using n
    by (simp add: export_students_json_def Let_def JsonResponse_def
        student_export_values_def [abs_def])
  from a b r k s show ?thesis by blast
qed

theorem exports_agree_witness:
  "distinct (map section_id (sections scenario_db)) \<and>
   student_section ` set (students scenario_db) \<subseteq> section_id ` set (sections scenario_db) \<and>
   (\<exists>rows :: (Student \<times> Section) list.
      content (export_students_csv scenario_db ''2025-10-12_17-35'') =
        [JStr ''student_id'', JStr ''first_name'', JStr ''last_name'', JStr ''email'',
         JStr ''section_code''] #
        map (\<lambda>r. [JInt (student_id (fst r)), JStr (first_name (fst r)),
                   JStr (last_name (fst r)), JStr (email (fst r)), JStr (code (snd r))]) rows \<and>
      map student_id (map fst rows) = [3, 1, 2]) \<and>
   content (export_students_csv scenario_db ''2025-10-12_17-35'') =
     [[JStr ''student_id'', JStr ''first_name'', JStr ''last_name'', JStr ''email'',
       JStr ''section_code''],
      [JInt 3, JStr ''Grace'', JStr ''Hopper'', JStr ''grace@example.com'', JStr ''CS102-B''],
      [JInt 1, JStr ''Ada'', JStr ''Lovelace'', JStr ''ada@example.com'', JStr ''CS101-A''],
      [JInt 2, JStr ''Alan'', JStr ''Turing'', JStr ''alan@example.com'', JStr ''CS101-A'']] \<and>
   content (export_students_json scenario_db ''2025-10-12T17:35:00'' ''2025-10-12_17-35'') =
     JObj [(''generated_at'', JStr ''2025-10-12T17:35:00''),
           (''record_count'', JInt 3),
           (''students'',
            JArr [JObj [(''student_id'', JInt 3), (''first_name'', JStr ''Grace''),
                        (''last_name'', JStr ''Hopper''), (''email'', JStr ''grace@example.com''),
                        (''section__code'', JStr ''CS102-B'')],
                  JObj [(''student_id'', JInt 1), (''first_name'', JStr ''Ada''),
                        (''last_name'', JStr ''Lovelace''), (''email'', JStr ''ada@example.com''),
                        (''section__code'', JStr ''CS101-A'')],
                  JObj [(''student_id'', JInt 2), (''first_name'', JStr ''Alan''),
                        (''last_name'', JStr ''Turing''), (''email'', JStr ''alan@example.com''),
                        (''section__code'', JStr ''CS101-A'')]])]"
proof -
  have d: "distinct (map section_id (sections scenario_db))"
    by code_simp
  have f: "student_section ` set (students scenario_db) \<subseteq> section_id ` set (sections scenario_db)"
    by (simp add: scenario_db_def)
  have m: "map student_id (sort_key (\<lambda>s. (last_name s, first_name s)) (students scenario_db)) =
             [3, 1, 2]"
    by code_simp
  from exports_agree [OF d f, of "''2025-10-12_17-35''" "''2025-10-12T17:35:00''" "''2025-10-12_17-35''"]
  obtain rows :: "(Student \<times> Section) list" where
    a: "content (export_students_csv scenario_db ''2025-10-12_17-35'') =
        [JStr ''student_id'', JStr ''first_name'', JStr ''last_name'', JStr ''email'',
         JStr ''section_code''] #
        map (\<lambda>r. [JInt (student_id (fst r)), JStr (first_name (fst r)),
                   JStr (last_name (fst r)), JStr (email (fst r)), JStr (code (snd r))]) rows"
    and r: "map fst rows = sort_key (\<lambda>s. (last_name s, first_name s)) (students scenario_db)"
    by (elim exE conjE)
  from r have r': "map student_id (map fst rows) = [3, 1, 2]"
    by (simp only: m)
  from a r' have e: "\<exists>rows :: (Student \<times> Section) list.
      content (export_students_csv scenario_db ''2025-10-12_17-35'') =
        [JStr ''student_id'', JStr ''first_name'', JStr ''last_name'', JStr ''email'',
         JStr ''section_code''] #
        map (\<lambda>r. [JInt (student_id (fst r)), JStr (first_name (fst r)),
                   JStr (last_name (fst r)), JStr (email (fst r)), JStr (code (snd r))]) rows \<and>
      map student_id (map fst rows) = [3, 1, 2]"
    by (intro exI [of _ rows] conjI)
  have c: "content (export_students_csv scenario_db ''2025-10-12_17-35'') =
     [[JStr ''student_id'', JStr ''first_name'', JStr ''last_name'', JStr ''email'',
       JStr ''section_code''],
      [JInt 3, JStr ''Grace'', JStr ''Hopper'', JStr ''grace@example.com'', JStr ''CS102-B''],
      [JInt 1, JStr ''Ada'', JStr ''Lovelace'', JStr ''ada@example.com'', JStr ''CS101-A''],
      [JInt 2, JStr ''Alan'', JStr ''Turing'', JStr ''alan@example.com'', JStr ''CS101-A'']]"
    by code_simp
  have j: "content (export_students_json scenario_db ''2025-10-12T17:35:00'' ''2025-10-12_17-35'') =
     JObj [(''generated_at'', JStr ''2025-10-12T17:35:00''),
           (''record_count'', JInt 3),
           (''students'',
            JArr [JObj [(''student_id'', JInt 3), (''first_name'', JStr ''Grace''),
                        (''last_name'', JStr ''Hopper''), (''email'', JStr ''grace@example.com''),
                        (''section__code'', JStr ''CS102-B'')],
                  JObj [(''student_id'', JInt 1), (''first_name'', JStr ''Ada''),
                        (''last_name'', JStr ''Lovelace''), (''email'', JStr ''ada@example.com''),
                        (''section__code'', JStr ''CS101-A'')],
                  JObj [(''student_id'', JInt 2), (''first_name'', JStr ''Alan''),
                        (''last_name'', JStr ''Turing''), (''email'', JStr ''alan@example.com''),
                        (''section__code'', JStr ''CS101-A'')]])]"
    by code_simp
  show ?thesis by (rule conjI [OF d conjI [OF f conjI [OF e conjI [OF c j]]]])
qed

section \<open>The two definitions of the roster endpoint\<close>

text \<open>
  C9, as the source has it: the module defines \<open>api_students\<close> twice and the second
  definition replaces the first, but the two bodies compute the same response for every
  state and every request.
\<close>

theorem api_students_definitions_agree:
  "api_students_first db GET_q = api_students db GET_q"
  by (simp add: api_students_first_def api_students_def)

text \<open>C9 as stated fails: no state and no request tell the two definitions apart.\<close>

theorem api_students_definitions_differ_refuted:
  "\<not> (\<exists>db GET_q. api_students_first db GET_q \<noteq> api_students db GET_q)"
  by (simp add: api_students_first_def api_students_def)

section \<open>The filtered roster\<close>




section \<open>The search of the HTML student list\<close>




section \<open>The weather endpoint\<close>

text \<open>
  C4, as the code has it. When the fetch raises a request exception (network error,
  timeout), when the status of the response is between 400 and 599, and when the body is
  not JSON, the endpoint answers \<open>{ok: false, error: <message>}\<close> with status 502. When the
  status is outside 400 to 599 and the body is a JSON object, it answers
  \<open>{ok: true, weather: w}\<close> with status 200, \<open>w\<close> being the member \<open>current_weather\<close> of
  the body, or the empty object when the body has no such member.
\<close>

theorem weather_contract:
  "WeatherNow_get (Raises e) =
     Inr (JsonResponse (JObj [(''ok'', JBool False), (''error'', JStr e)]) 502) \<and>
   (400 \<le> status_code r \<and> status_code r < 600 \<longrightarrow>
      WeatherNow_get (Returns r) =
        Inr (JsonResponse (JObj [(''ok'', JBool False), (''error'', JStr (http_error_msg r))]) 502)) \<and>
   (\<not> (400 \<le> status_code r \<and> status_code r < 600) \<and> json_body r = Inl e \<longrightarrow>
      WeatherNow_get (Returns r) =
        Inr (JsonResponse (JObj [(''ok'', JBool False), (''error'', JStr e)]) 502)) \<and>
   (\<not> (400 \<le> status_code r \<and> status_code r < 600) \<and> json_body r = Inr (JObj items) \<longrightarrow>
      WeatherNow_get (Returns r) =
        Inr (JsonResponse
               (JObj [(''ok'', JBool True),
                      (''weather'', case map_of items ''current_weather'' of
                                      None \<Rightarrow> JObj [] | Some w \<Rightarrow> w)]) 200))"
  by (simp add: WeatherNow_get_def)

theorem weather_contract_witness:
  "WeatherNow_get timed_out =
     Inr (JsonResponse (JObj [(''ok'', JBool False),
                              (''error'', JStr ''Read timed out. (read timeout=5)'')]) 502) \<and>
   WeatherNow_get not_found =
     Inr (JsonResponse (JObj [(''ok'', JBool False),
                              (''error'', JStr ''404 Client Error: Not Found'')]) 502) \<and>
   WeatherNow_get forecast =
     Inr (JsonResponse (JObj [(''ok'', JBool True),
                              (''weather'', JObj [(''temperature'', JFloat 22),
                                                  (''windspeed'', JFloat 8.4),
                                                  (''weathercode'', JInt 0)])]) 200)"
proof -
  let ?nf = "\<lparr>status_code = 404, http_error_msg = ''404 Client Error: Not Found'',
              json_body = Inl ''Expecting value: line 1 column 1 (char 0)''\<rparr>"
  let ?items = "[(''latitude'', JFloat 40.1164),
                 (''current_weather'', JObj [(''temperature'', JFloat 22),
                                             (''windspeed'', JFloat 8.4),
                                             (''weathercode'', JInt 0)])]"
  let ?fc = "\<lparr>status_code = 200, http_error_msg = [], json_body = Inr (JObj ?items)\<rparr>"
  have 1: "WeatherNow_get timed_out =
     Inr (JsonResponse (JObj [(''ok'', JBool False),
                              (''error'', JStr ''Read timed out. (read timeout=5)'')]) 502)"
    unfolding timed_out_def by (rule weather_contract [THEN conjunct1])
  have h2: "400 \<le> status_code ?nf \<and> status_code ?nf < 600" by simp
  have 2: "WeatherNow_get not_found =
     Inr (JsonResponse (JObj [(''ok'', JBool False),
                              (''error'', JStr ''404 Client Error: Not Found'')]) 502)"
    using weather_contract [where r = ?nf, THEN conjunct2, THEN conjunct1, THEN mp, OF h2]
    by (simp add: not_found_def)
  have h3: "\<not> (400 \<le> status_code ?fc \<and> status_code ?fc < 600) \<and> json_body ?fc = Inr (JObj ?items)"
    by simp
  have 3: "WeatherNow_get forecast =
     Inr (JsonResponse (JObj [(''ok'', JBool True),
                              (''weather'', JObj [(''temperature'', JFloat 22),
                                                  (''windspeed'', JFloat 8.4),
                                                  (''weathercode'', JInt 0)])]) 200)"
    using weather_contract [where r = ?fc and items = ?items,
        THEN conjunct2, THEN conjunct2, THEN conjunct2, THEN mp, OF h3]
    by (simp add: forecast_def)
  show ?thesis by (rule conjI [OF 1 conjI [OF 2 3]])
qed

text \<open>
  C4 as stated fails: a response with status 300 (not a 2xx status, and not raised by
  \<open>raise_for_status\<close>) and a JSON object as body is answered with \<open>ok: true\<close> and status
  200, not 502; and a response with status 200 whose body is a JSON array makes
  \<open>.get("current_weather", {})\<close> raise \<open>AttributeError\<close>, which the handler does not catch.
\<close>

theorem weather_contract_counterexample:
  "WeatherNow_get multiple_choices =
     Inr (JsonResponse (JObj [(''ok'', JBool True),
                              (''weather'', JObj [(''temperature'', JFloat 22)])]) 200) \<and>
   WeatherNow_get list_body = Inl AttributeError"
  by (simp add: multiple_choices_def list_body_def WeatherNow_get_def)

section \<open>Uniqueness at write time\<close>


section \<open>Deleting sections and students\<close>

text \<open>
  C6. Deleting a section that a student or an enrollment points to fails with a protection
  error and leaves the state unchanged. Deleting a student succeeds; it removes the
  student and the enrollments of that student, and nothing else.
\<close>

theorem deletion_policies:
  "(((\<exists>s\<in>set (students db). student_section s = pk) \<or>
     (\<exists>e\<in>set (enrollments db). enrollment_section e = pk)) \<longrightarrow>
      delete_Section pk db = (Inl ProtectedError, db)) \<and>
   delete_Student k db =
     (Inr (), db\<lparr>students := [s \<leftarrow> students db. student_id s \<noteq> k],
                 enrollments := [e \<leftarrow> enrollments db. enrollment_student e \<noteq> k]\<rparr>)"
  by (auto simp: delete_Section_def delete_Student_def Student_section_on_delete_def
      Enrollment_section_on_delete_def Enrollment_student_on_delete_def Let_def filter_empty_conv)

theorem deletion_policies_witness:
  "delete_Section 1 scenario_db = (Inl ProtectedError, scenario_db) \<and>
   delete_Student 1 scenario_db =
     (Inr (),
      \<lparr>sections = sections scenario_db,
       students =
         [\<lparr>student_id = 2, first_name = ''Alan'', last_name = ''Turing'', nickname = ''Al'',
           email = ''alan@example.com'', student_section = 1\<rparr>,
          \<lparr>student_id = 3, first_name = ''Grace'', last_name = ''Hopper'', nickname = [],
           email = ''grace@example.com'', student_section = 2\<rparr>],
       enrollments =
         [\<lparr>enroll_id = 2, enrollment_student = 3, enrollment_section = 1,
           enrolled_on = ''2025-09-01'', is_active = False\<rparr>,
          \<lparr>enroll_id = 3, enrollment_student = 2, enrollment_section = 1,
           enrolled_on = ''2025-09-02'', is_active = True\<rparr>]\<rparr>) \<and>
   delete_Section 3 vacant_db =
     (Inr (), vacant_db\<lparr>sections := [sec \<leftarrow> sections vacant_db. section_id sec \<noteq> 3]\<rparr>)"
proof -
  have h: "(\<exists>s\<in>set (students scenario_db). student_section s = 1) \<or>
           (\<exists>e\<in>set (enrollments scenario_db). enrollment_section e = 1)"
    by (simp add: scenario_db_def)
  have 1: "delete_Section 1 scenario_db = (Inl ProtectedError, scenario_db)"
    by (rule deletion_policies [THEN conjunct1, THEN mp, OF h])
  have 2: "delete_Student 1 scenario_db =
     (Inr (),
      \<lparr>sections = sections scenario_db,
       students =
         [\<lparr>student_id = 2, first_name = ''Alan'', last_name = ''Turing'', nickname = ''Al'',
           email = ''alan@example.com'', student_section = 1\<rparr>,
          \<lparr>student_id = 3, first_name = ''Grace'', last_name = ''Hopper'', nickname = [],
           email = ''grace@example.com'', student_section = 2\<rparr>],
       enrollments =
         [\<lparr>enroll_id = 2, enrollment_student = 3, enrollment_section = 1,
           enrolled_on = ''2025-09-01'', is_active = False\<rparr>,
          \<lparr>enroll_id = 3, enrollment_student = 2, enrollment_section = 1,
           enrolled_on = ''2025-09-02'', is_active = True\<rparr>]\<rparr>)"
    unfolding deletion_policies [THEN conjunct2] by (simp add: scenario_db_def)
  have 3: "delete_Section 3 vacant_db =
     (Inr (), vacant_db\<lparr>sections := [sec \<leftarrow> sections vacant_db. section_id sec \<noteq> 3]\<rparr>)"
    by (simp add: delete_Section_def Let_def vacant_db_def vacant_section_def
        Student_section_on_delete_def Enrollment_section_on_delete_def
        Enrollment_student_on_delete_def)
  show ?thesis by (rule conjI [OF 1 conjI [OF 2 3]])
qed

end
